theory Spec2Isabelle
  imports Main
begin

section \<open>The voice input controller\<close>

text \<open>
  A shallow embedding of \<^verbatim>\<open>app/javascript/controllers/voice_input_controller.js\<close>:
  a Stimulus controller that owns a handle on the browser's speech recognition engine,
  a \<^verbatim>\<open>speaking\<close> flag, a text input and a button. JavaScript strings are lists of code
  units (\<open>string\<close>); offsets and indices are \<open>nat\<close> (the DOM's \<^verbatim>\<open>unsigned long\<close>).
  A method that can throw returns a sum: \<open>Inl\<close> carries the error, and for a method of
  the controller also the state the controller is left in when the exception escapes.
\<close>

subsection \<open>Data model\<close>

datatype js_error = TypeError | InvalidStateError

text \<open>One line written to the console: \<^verbatim>\<open>console.log(...)\<close> or \<^verbatim>\<open>console.error(...)\<close>,
  with its arguments.\<close>

datatype console_entry = ConsoleLog "string list" | ConsoleError "string list"

text \<open>
  The arrow functions that \<^verbatim>\<open>setupSpeechRecognitionCallbacks\<close> stores in the engine, one
  datatype for each shape of callback: \<^verbatim>\<open>() => console.log(msg)\<close>,
  \<^verbatim>\<open>(event) => this.handleSpeechRecognitionError(event)\<close> and
  \<^verbatim>\<open>(event) => this.handleSpeechRecognitionResult(event)\<close>.
\<close>

datatype log_callback = LogMessage string
datatype error_callback = ForwardError
datatype result_callback = ForwardResult

datatype engine_call = StartCall | StopCall

text \<open>
  The engine object (\<^verbatim>\<open>SpeechRecognition\<close>) belongs to the browser. The model keeps the
  properties the controller writes, the four callback slots, the identity of the object
  (\<open>ident\<close>), the list of calls of \<^verbatim>\<open>start()\<close> and \<^verbatim>\<open>stop()\<close> it has received, and
  whether it is started: \<^verbatim>\<open>start()\<close> has been called and no end or error event has fired
  on the object since.
\<close>

record speech_recognition =
  ident :: nat
  continuous :: bool
  interimResults :: bool
  lang :: string
  onstart :: "log_callback option"
  onerror :: "error_callback option"
  onend :: "log_callback option"
  onresult :: "result_callback option"
  calls :: "engine_call list"
  started :: bool

record alternative =
  transcript :: string

record recognition_result =
  isFinal :: bool
  alternatives :: "alternative list"

record recognition_event =
  resultIndex :: nat
  results :: "recognition_result list"

record error_event =
  error :: string

record transcripts =
  finalTranscript :: string
  interimTranscript :: string

record input_element =
  value_text :: string
  selectionStart :: nat
  selectionEnd :: nat

record button_element =
  textContent :: string

text \<open>
  The controller with its two targets, the console it writes to, and the number of engine
  objects the page has constructed so far (\<open>engines_created\<close>, which numbers them).
  \<open>speechRecognition = None\<close> is JavaScript's \<^verbatim>\<open>null\<close>.
\<close>

record controller =
  speechRecognition :: "speech_recognition option"
  speaking :: bool
  inputTarget :: input_element
  startButtonTarget :: button_element
  console :: "console_entry list"
  engines_created :: nat

text \<open>
  The two global constructors the controller looks for. Each field holds the properties of
  the object that \<^verbatim>\<open>new\<close> would give, or \<open>None\<close> where the browser lacks the constructor.
\<close>

record window =
  SpeechRecognition :: "speech_recognition option"
  webkitSpeechRecognition :: "speech_recognition option"

type_synonym outcome = "(js_error \<times> controller) + controller"

definition state_of :: "outcome \<Rightarrow> controller" where
  "state_of r = (case r of Inl (e, s) \<Rightarrow> s | Inr s \<Rightarrow> s)"

definition console_log :: "string list \<Rightarrow> controller \<Rightarrow> controller" where
  "console_log args s = s\<lparr>console := console s @ [ConsoleLog args]\<rparr>"

definition console_error :: "string list \<Rightarrow> controller \<Rightarrow> controller" where
  "console_error args s = s\<lparr>console := console s @ [ConsoleError args]\<rparr>"

subsection \<open>extractTranscripts\<close>

text \<open>
  The \<^verbatim>\<open>for\<close> loop of \<^verbatim>\<open>extractTranscripts\<close>, with its counter and its two accumulators.
  \<^verbatim>\<open>event.results[i][0].transcript\<close> reads a property of \<^verbatim>\<open>undefined\<close> when the slot has
  no alternative, which throws a TypeError.
\<close>

function extract_loop ::
  "recognition_event \<Rightarrow> nat \<Rightarrow> string \<Rightarrow> string \<Rightarrow> js_error + (string \<times> string)" where
  "extract_loop event i final_transcript interim_transcript =
     (if i < length (results event) then
        (case alternatives (results event ! i) of
           [] \<Rightarrow> Inl TypeError
         | a # _ \<Rightarrow>
             if isFinal (results event ! i)
             then extract_loop event (i + 1) (final_transcript @ transcript a) interim_transcript
             else extract_loop event (i + 1) final_transcript (interim_transcript @ transcript a))
      else Inr (final_transcript, interim_transcript))"
  by pat_completeness auto
termination
  by (relation "measure (\<lambda>(event, i, f, n). length (results event) - i)") auto

definition extractTranscripts :: "recognition_event \<Rightarrow> js_error + transcripts" where
  "extractTranscripts event =
     (case extract_loop event (resultIndex event) [] [] of
        Inl e \<Rightarrow> Inl e
      | Inr (final_transcript, interim_transcript) \<Rightarrow>
          Inr \<lparr>finalTranscript = final_transcript, interimTranscript = interim_transcript\<rparr>)"

text \<open>The extraction as the specification words it: the slots from the first changed index
  on, split by their final mark, the top alternatives concatenated in slot order.\<close>

definition top_transcript :: "recognition_result \<Rightarrow> string" where
  "top_transcript r = transcript (hd (alternatives r))"

definition changed_slots :: "recognition_event \<Rightarrow> recognition_result list" where
  "changed_slots event = drop (resultIndex event) (results event)"

definition spec_finalText :: "recognition_event \<Rightarrow> string" where
  "spec_finalText event = concat (map top_transcript (filter isFinal (changed_slots event)))"

definition spec_interimText :: "recognition_event \<Rightarrow> string" where
  "spec_interimText event =
     concat (map top_transcript (filter (\<lambda>r. \<not> isFinal r) (changed_slots event)))"

subsection \<open>Initialisation\<close>

definition setupSpeechRecognitionProperties :: "speech_recognition \<Rightarrow> speech_recognition" where
  "setupSpeechRecognitionProperties recognition =
     recognition\<lparr>continuous := True, interimResults := True, lang := ''en-US''\<rparr>"

definition setupSpeechRecognitionCallbacks :: "speech_recognition \<Rightarrow> speech_recognition" where
  "setupSpeechRecognitionCallbacks recognition =
     recognition\<lparr>onstart := Some (LogMessage ''Recording started...''),
                        onerror := Some ForwardError,
                        onend := Some (LogMessage ''Recording stopped...''),
                        onresult := Some ForwardResult\<rparr>"

text \<open>\<^verbatim>\<open>window.SpeechRecognition || window.webkitSpeechRecognition\<close>: the first
  constructor when the browser has it, else the second.\<close>

definition pick_constructor :: "window \<Rightarrow> speech_recognition option" where
  "pick_constructor w =
     (case SpeechRecognition w of Some c \<Rightarrow> Some c | None \<Rightarrow> webkitSpeechRecognition w)"

text \<open>\<^verbatim>\<open>getSpeechRecognition\<close> returns the new handle or \<^verbatim>\<open>null\<close>, and the controller
  state with what it wrote to the console. \<^verbatim>\<open>new SpeechRecognition()\<close> makes an object
  that did not exist before: it takes the next identity and is not started.\<close>

definition getSpeechRecognition ::
  "window \<Rightarrow> controller \<Rightarrow> speech_recognition option \<times> controller" where
  "getSpeechRecognition w s =
     (case pick_constructor w of
        None \<Rightarrow> (None, console_error [''Speech recognition not supported in this browser''] s)
      | Some c \<Rightarrow>
          (let recognition = c\<lparr>ident := engines_created s, started := False\<rparr>;
               s1 = s\<lparr>engines_created := engines_created s + 1\<rparr>;
               recognition = setupSpeechRecognitionProperties recognition;
               recognition = setupSpeechRecognitionCallbacks recognition
           in (Some recognition, s1)))"

definition connect :: "window \<Rightarrow> controller \<Rightarrow> controller" where
  "connect w s =
     (let s1 = console_log [''VoiceInputController connected''] s;
          (handle, s2) = getSpeechRecognition w s1
      in s2\<lparr>speechRecognition := handle, speaking := False\<rparr>)"

subsection \<open>Starting and stopping\<close>

text \<open>
  The engine's \<^verbatim>\<open>start()\<close> and \<^verbatim>\<open>stop()\<close> run in the browser. \<^verbatim>\<open>start()\<close> on an
  object that is already started throws an InvalidStateError and the call is ignored;
  otherwise the object is started. \<^verbatim>\<open>stop()\<close> always returns (on an object that is
  stopped or being stopped the call is ignored), and the object stays started until the
  engine fires its end or error event.
\<close>

definition engine_start :: "speech_recognition \<Rightarrow> js_error + speech_recognition" where
  "engine_start e =
     (if started e then Inl InvalidStateError
      else Inr (e\<lparr>calls := calls e @ [StartCall], started := True\<rparr>))"

definition engine_stop :: "speech_recognition \<Rightarrow> speech_recognition" where
  "engine_stop e = e\<lparr>calls := calls e @ [StopCall]\<rparr>"

text \<open>\<^verbatim>\<open>this.speechRecognition.stop()\<close> on a \<^verbatim>\<open>null\<close> handle throws a TypeError before
  anything else of the method runs. Neither method catches what the engine throws.\<close>

definition stopRecording :: "controller \<Rightarrow> outcome" where
  "stopRecording s =
     (case speechRecognition s of
        None \<Rightarrow> Inl (TypeError, s)
      | Some e \<Rightarrow>
          Inr (console_log [''Stop recording'']
                 (s\<lparr>speechRecognition := Some (engine_stop e), speaking := False\<rparr>)))"

definition startRecording :: "controller \<Rightarrow> outcome" where
  "startRecording s =
     (case speechRecognition s of
        None \<Rightarrow> Inl (TypeError, s)
      | Some e \<Rightarrow>
          (case engine_start e of
             Inl err \<Rightarrow> Inl (err, s)
           | Inr e' \<Rightarrow>
               Inr (console_log [''Start recording'']
                      (s\<lparr>speechRecognition := Some e', speaking := True\<rparr>))))"

definition set_textContent :: "string \<Rightarrow> controller \<Rightarrow> controller" where
  "set_textContent label s =
     s\<lparr>startButtonTarget := (startButtonTarget s)\<lparr>textContent := label\<rparr>\<rparr>"

text \<open>The method \<^verbatim>\<open>record()\<close>, bound to the button's click.\<close>

definition record_click :: "controller \<Rightarrow> outcome" where
  "record_click s =
     (if speechRecognition s = None
      then Inr (console_error [''Speech recognition is not available''] s)
      else if speaking s
      then (case stopRecording s of
              Inl x \<Rightarrow> Inl x
            | Inr s' \<Rightarrow> Inr (set_textContent ''Start Voice Input'' s'))
      else (case startRecording s of
              Inl x \<Rightarrow> Inl x
            | Inr s' \<Rightarrow> Inr (set_textContent ''Stop Voice Input'' s')))"

subsection \<open>Splicing the transcripts into the input\<close>

text \<open>\<^verbatim>\<open>String.prototype.substring\<close>: both offsets are clamped to the length and swapped
  when the first exceeds the second; with one argument the end is the length.\<close>

definition substring :: "string \<Rightarrow> nat \<Rightarrow> nat \<Rightarrow> string" where
  "substring str indexStart indexEnd =
     (let len = length str;
          a = min indexStart len;
          b = min indexEnd len;
          from = min a b;
          to = max a b
      in take (to - from) (drop from str))"

definition substring_from :: "string \<Rightarrow> nat \<Rightarrow> string" where
  "substring_from str indexStart = substring str indexStart (length str)"

text \<open>
  The input target is a DOM text control. Its selection offsets never point past its
  text: every way of setting them goes through the DOM's ``set the selection range'',
  which takes an offset greater than the length of the text as that length and puts both
  ends at the end offset when the start is not before it. Assigning \<^verbatim>\<open>value\<close> a string
  that differs from the old one moves the caret to the end of the new text.
\<close>

definition set_selection_range :: "nat \<Rightarrow> nat \<Rightarrow> input_element \<Rightarrow> input_element" where
  "set_selection_range startOffset endOffset input =
     (let len = length (value_text input);
          e = min endOffset len;
          b = min startOffset len;
          b = (if e \<le> b then e else b)
      in input\<lparr>selectionStart := b, selectionEnd := e\<rparr>)"

definition set_value :: "string \<Rightarrow> input_element \<Rightarrow> input_element" where
  "set_value v input =
     (if v = value_text input then input
      else input\<lparr>value_text := v, selectionStart := length v, selectionEnd := length v\<rparr>)"

definition set_selectionEnd :: "nat \<Rightarrow> input_element \<Rightarrow> input_element" where
  "set_selectionEnd n input = set_selection_range (selectionStart input) n input"

definition set_selectionStart :: "nat \<Rightarrow> input_element \<Rightarrow> input_element" where
  "set_selectionStart n input =
     (let endOffset = selectionEnd input;
          endOffset = (if endOffset < n then n else endOffset)
      in set_selection_range n endOffset input)"

definition setSelectionRange :: "nat \<Rightarrow> nat \<Rightarrow> input_element \<Rightarrow> input_element" where
  "setSelectionRange a b input = set_selection_range a b input"

text \<open>In \<^verbatim>\<open>input.selectionStart = input.selectionEnd = n\<close> the right assignment runs
  first.\<close>

definition updateInputValue :: "string \<Rightarrow> string \<Rightarrow> controller \<Rightarrow> controller" where
  "updateInputValue finalTranscript' interimTranscript' s =
     (let input = inputTarget s;
          selStart = selectionStart input;
          selEnd = selectionEnd input;
          currentValue = value_text input;
          beforeSelection = substring currentValue 0 selStart;
          afterSelection = substring_from currentValue selEnd;
          updatedValue = beforeSelection @ finalTranscript' @ afterSelection;
          input = set_value updatedValue input;
          input = set_selectionEnd (selStart + length finalTranscript') input;
          input = set_selectionStart (selStart + length finalTranscript') input;
          updatedSelectionStart = selStart + length finalTranscript';
          updatedSelectionEnd = updatedSelectionStart + length interimTranscript';
          input = setSelectionRange updatedSelectionStart updatedSelectionEnd input
      in s\<lparr>inputTarget := input\<rparr>)"

subsection \<open>Event handlers\<close>

definition handleSpeechRecognitionError :: "error_event \<Rightarrow> controller \<Rightarrow> outcome" where
  "handleSpeechRecognitionError event s =
     stopRecording (console_error [''Speech recognition error:'', error event] s)"

definition handleSpeechRecognitionResult :: "recognition_event \<Rightarrow> controller \<Rightarrow> outcome" where
  "handleSpeechRecognitionResult event s =
     (case extractTranscripts event of
        Inl e \<Rightarrow> Inl (e, s)
      | Inr t \<Rightarrow> Inr (updateInputValue (finalTranscript t) (interimTranscript t) s))"

text \<open>
  The engine reports an event by calling the callback stored in the matching slot of the
  handle; an empty slot means nothing runs. A controller without a handle has no engine
  that could report anything. \<open>deliver\<close> is the callback's part of an event.
\<close>

datatype engine_event =
  OnStart | OnError error_event | OnEnd | OnResult recognition_event

definition run_log_callback :: "log_callback option \<Rightarrow> controller \<Rightarrow> outcome" where
  "run_log_callback cb s =
     (case cb of None \<Rightarrow> Inr s | Some (LogMessage msg) \<Rightarrow> Inr (console_log [msg] s))"

definition deliver :: "engine_event \<Rightarrow> controller \<Rightarrow> outcome" where
  "deliver ev s =
     (case speechRecognition s of
        None \<Rightarrow> Inr s
      | Some e \<Rightarrow>
          (case ev of
             OnStart \<Rightarrow> run_log_callback (onstart e) s
           | OnError event \<Rightarrow>
               (case onerror e of
                  None \<Rightarrow> Inr s
                | Some ForwardError \<Rightarrow> handleSpeechRecognitionError event s)
           | OnEnd \<Rightarrow> run_log_callback (onend e) s
           | OnResult event \<Rightarrow>
               (case onresult e of
                  None \<Rightarrow> Inr s
                | Some ForwardResult \<Rightarrow> handleSpeechRecognitionResult event s)))"

text \<open>The engine's own part of an event: when it fires its end or its error event it is
  no longer started.\<close>

definition engine_fires :: "engine_event \<Rightarrow> controller \<Rightarrow> controller" where
  "engine_fires ev s =
     (case ev of
        OnEnd \<Rightarrow> s\<lparr>speechRecognition := map_option (\<lambda>e. e\<lparr>started := False\<rparr>) (speechRecognition s)\<rparr>
      | OnError _ \<Rightarrow>
          s\<lparr>speechRecognition := map_option (\<lambda>e. e\<lparr>started := False\<rparr>) (speechRecognition s)\<rparr>
      | _ \<Rightarrow> s)"

text \<open>
  What can happen to a connected controller: a click on the button, a direct call of
  \<^verbatim>\<open>startRecording\<close> or \<^verbatim>\<open>stopRecording\<close>, or an event of the engine (the engine's
  part, then the callback). An exception that escapes a handler ends that handler only;
  the controller lives on in the state the handler left.
\<close>

datatype action = Click | CallStart | CallStop | Engine engine_event

definition perform :: "action \<Rightarrow> controller \<Rightarrow> outcome" where
  "perform a s =
     (case a of
        Click \<Rightarrow> record_click s
      | CallStart \<Rightarrow> startRecording s
      | CallStop \<Rightarrow> stopRecording s
      | Engine ev \<Rightarrow> deliver ev (engine_fires ev s))"

fun run :: "action list \<Rightarrow> controller \<Rightarrow> controller" where
  "run [] s = s"
| "run (a # as) s = run as (state_of (perform a s))"

subsection \<open>What the properties speak of\<close>

text \<open>A method call that changes nothing but the console, writes exactly one
  \<^verbatim>\<open>console.error\<close> line there, and returns.\<close>

fun is_error_entry :: "console_entry \<Rightarrow> bool" where
  "is_error_entry (ConsoleError _) = True"
| "is_error_entry (ConsoleLog _) = False"

definition noop_reporting_error :: "controller \<Rightarrow> outcome \<Rightarrow> bool" where
  "noop_reporting_error s r =
     (case r of
        Inl _ \<Rightarrow> False
      | Inr s' \<Rightarrow>
          s'\<lparr>console := console s\<rparr> = s \<and>
          take (length (console s)) (console s') = console s \<and>
          (case drop (length (console s)) (console s') of
             [entry] \<Rightarrow> is_error_entry entry
           | _ \<Rightarrow> False))"

text \<open>Two clicks in a row; the second runs only if the first returned.\<close>

definition toggle_twice :: "controller \<Rightarrow> outcome" where
  "toggle_twice s = (case record_click s of Inl x \<Rightarrow> Inl x | Inr s' \<Rightarrow> record_click s')"

text \<open>The label \<^verbatim>\<open>record()\<close> gives the button on entering a recording state.\<close>

definition label_for :: "bool \<Rightarrow> string" where
  "label_for recording = (if recording then ''Stop Voice Input'' else ''Start Voice Input'')"

definition handle_ident :: "controller \<Rightarrow> nat option" where
  "handle_ident s = map_option ident (speechRecognition s)"

subsection \<open>Concrete scenarios\<close>

text \<open>An engine as \<^verbatim>\<open>new\<close> makes it, a browser that has the prefixed constructor only, a
  browser that has none, and a page before \<^verbatim>\<open>connect()\<close>.\<close>

definition fresh_engine :: speech_recognition where
  "fresh_engine =
     \<lparr>ident = 0, continuous = False, interimResults = False, lang = [],
      onstart = None, onerror = None, onend = None, onresult = None, calls = [],
      started = False\<rparr>"

definition browser_with_engine :: window where
  "browser_with_engine =
     \<lparr>SpeechRecognition = None, webkitSpeechRecognition = Some fresh_engine\<rparr>"

definition browser_without_engine :: window where
  "browser_without_engine = \<lparr>SpeechRecognition = None, webkitSpeechRecognition = None\<rparr>"

definition page :: controller where
  "page =
     \<lparr>speechRecognition = None, speaking = False,
      inputTarget = \<lparr>value_text = ''hello world'', selectionStart = 5, selectionEnd = 5\<rparr>,
      startButtonTarget = \<lparr>textContent = ''Start Voice Input''\<rparr>,
      console = [], engines_created = 0\<rparr>"

definition idle_page :: controller where
  "idle_page = connect browser_with_engine page"

definition recording_page :: controller where
  "recording_page = state_of (record_click idle_page)"

definition page_after_error :: controller where
  "page_after_error = state_of (deliver (OnError \<lparr>error = ''no-speech''\<rparr>) recording_page)"

text \<open>The recording page after the engine has ended by itself, and after the engine has
  reported an error: the event fired, then its callback ran.\<close>

definition ended_recording_page :: controller where
  "ended_recording_page = state_of (perform (Engine OnEnd) recording_page)"

definition page_after_engine_error :: controller where
  "page_after_engine_error =
     state_of (perform (Engine (OnError \<lparr>error = ''no-speech''\<rparr>)) recording_page)"

definition unsupported_page :: controller where
  "unsupported_page = connect browser_without_engine page"

definition selected_page :: controller where
  "selected_page =
     idle_page\<lparr>inputTarget :=
       \<lparr>value_text = ''hello world'', selectionStart = 0, selectionEnd = 5\<rparr>\<rparr>"

definition slot :: "bool \<Rightarrow> string \<Rightarrow> recognition_result" where
  "slot fin txt = \<lparr>isFinal = fin, alternatives = [\<lparr>transcript = txt\<rparr>]\<rparr>"

definition example_event :: recognition_event where
  "example_event =
     \<lparr>resultIndex = 1,
      results = [slot True ''old '', slot False ''the'', slot True '' there'', slot False ''re'']\<rparr>"

definition stale_event :: recognition_event where
  "stale_event = \<lparr>resultIndex = 2, results = [slot True ''old '', slot True ''news'']\<rparr>"

definition silent_event :: recognition_event where
  "silent_event = \<lparr>resultIndex = 0, results = [slot False [], slot True []]\<rparr>"

section \<open>Properties\<close>

subsection \<open>Transcript extraction\<close>

lemma extract_loop_concat:
  assumes "\<forall>r \<in> set (drop i (results event)). alternatives r \<noteq> []"
  shows "extract_loop event i f n =
    Inr (f @ concat (map top_transcript (filter isFinal (drop i (results event)))),
         n @ concat (map top_transcript (filter (\<lambda>r. \<not> isFinal r) (drop i (results event)))))"
  using assms
proof (induction event i f n rule: extract_loop.induct)
  case (1 event i f n)
  show ?case
  proof (cases "i < length (results event)")
    case False
    then show ?thesis by simp
  next
    case True
    let ?r = "results event ! i"
    from True have split: "drop i (results event) = ?r # drop (Suc i) (results event)"
      by (simp add: Cons_nth_drop_Suc)
    with "1.prems" have ne: "alternatives ?r \<noteq> []"
      and rest: "\<forall>r \<in> set (drop (Suc i) (results event)). alternatives r \<noteq> []"
      by simp_all
    from ne obtain a as where alts: "alternatives ?r = a # as"
      by (cases "alternatives ?r") auto
    have top: "top_transcript ?r = transcript a"
      by (simp add: top_transcript_def alts)
    show ?thesis
    proof (cases "isFinal ?r")
      case True
      with \<open>i < length (results event)\<close> alts rest "1.IH"(1) [of a as] top split
      show ?thesis by simp
    next
      case False
      with \<open>i < length (results event)\<close> alts rest "1.IH"(2) [of a as] top split
      show ?thesis by simp
    qed
  qed
qed

text \<open>
  C4. For every recognition event whose changed slots each carry at least one
  alternative, \<^verbatim>\<open>extractTranscripts\<close> returns, and its \<^verbatim>\<open>finalTranscript\<close> is the
  concatenation, in slot order from \<^verbatim>\<open>resultIndex\<close> to the end of the results, of the top
  transcript of every slot marked final, and its \<^verbatim>\<open>interimTranscript\<close> the same
  concatenation over the slots not marked final.
\<close>

theorem extractTranscripts_partition:
  assumes "\<forall>r \<in> set (changed_slots event). alternatives r \<noteq> []"
  shows "extractTranscripts event =
    Inr \<lparr>finalTranscript = spec_finalText event, interimTranscript = spec_interimText event\<rparr>"
  using assms extract_loop_concat [of "resultIndex event" event "[]" "[]"]
  by (simp add: extractTranscripts_def spec_finalText_def spec_interimText_def changed_slots_def)

text \<open>An event with four slots of which the first is unchanged: the final text is
  `` there'', the interim text ``there''.\<close>

theorem extractTranscripts_partition_witness:
  "list_all (\<lambda>r. alternatives r \<noteq> []) (changed_slots example_event) \<and>
   extractTranscripts example_event =
     Inr \<lparr>finalTranscript = '' there'', interimTranscript = ''there''\<rparr>"
proof -
  have h: "\<forall>r \<in> set (changed_slots example_event). alternatives r \<noteq> []"
    by (simp add: changed_slots_def example_event_def slot_def)
  have "spec_finalText example_event = '' there''"
    and "spec_interimText example_event = ''there''"
    by (simp_all add: spec_finalText_def spec_interimText_def changed_slots_def
        top_transcript_def example_event_def slot_def)
  with extractTranscripts_partition [OF h] h show ?thesis by (simp add: list_all_iff)
qed

subsection \<open>Helper facts\<close>

lemmas scenario_defs = fresh_engine_def browser_with_engine_def browser_without_engine_def
  page_def idle_page_def recording_page_def page_after_error_def unsupported_page_def
  ended_recording_page_def page_after_engine_error_def
  selected_page_def slot_def example_event_def stale_event_def silent_event_def

lemmas controller_defs = connect_def getSpeechRecognition_def pick_constructor_def
  setupSpeechRecognitionProperties_def setupSpeechRecognitionCallbacks_def
  console_log_def console_error_def record_click_def startRecording_def stopRecording_def
  engine_start_def engine_stop_def set_textContent_def state_of_def deliver_def
  handleSpeechRecognitionError_def run_log_callback_def engine_fires_def perform_def

lemma substring_prefix: "substring str 0 n = take n str"
  by (simp add: substring_def Let_def min_def)

lemma substring_from_drop: "substring_from str n = drop n str"
  by (simp add: substring_from_def substring_def Let_def min_def max_def)

lemma value_text_set_value: "value_text (set_value v input) = v"
  by (simp add: set_value_def)

lemma value_text_set_selection_range:
  "value_text (set_selection_range a b input) = value_text input"
  by (simp add: set_selection_range_def Let_def)

lemma set_selection_range_inside:
  assumes "a \<le> length (value_text input)" and "a \<le> b"
  shows "set_selection_range a b input =
    \<lparr>value_text = value_text input, selectionStart = a,
     selectionEnd = min b (length (value_text input))\<rparr>"
  using assms by (cases input) (auto simp: set_selection_range_def Let_def min_def)

lemma inputTarget_updateInputValue:
  assumes "selectionStart (inputTarget s) \<le> selectionEnd (inputTarget s)"
    and "selectionEnd (inputTarget s) \<le> length (value_text (inputTarget s))"
  shows "inputTarget (updateInputValue f i s) =
     \<lparr>value_text =
        take (selectionStart (inputTarget s)) (value_text (inputTarget s)) @ f @
        drop (selectionEnd (inputTarget s)) (value_text (inputTarget s)),
      selectionStart = selectionStart (inputTarget s) + length f,
      selectionEnd =
        min (selectionStart (inputTarget s) + length f + length i)
          (length (take (selectionStart (inputTarget s)) (value_text (inputTarget s)) @ f @
             drop (selectionEnd (inputTarget s)) (value_text (inputTarget s))))\<rparr>"
proof -
  let ?inp = "inputTarget s"
  let ?new = "take (selectionStart ?inp) (value_text ?inp) @ f @
    drop (selectionEnd ?inp) (value_text ?inp)"
  let ?a = "selectionStart ?inp + length f"
  let ?x = "set_selectionStart ?a (set_selectionEnd ?a (set_value ?new ?inp))"
  have v: "value_text ?x = ?new"
    by (simp add: set_selectionStart_def set_selectionEnd_def Let_def
        value_text_set_selection_range value_text_set_value)
  have inside: "?a \<le> length (value_text ?x)"
    using assms by (simp add: v)
  have "inputTarget (updateInputValue f i s) = set_selection_range ?a (?a + length i) ?x"
    by (simp add: updateInputValue_def Let_def substring_prefix substring_from_drop
        setSelectionRange_def)
  also have "\<dots> = \<lparr>value_text = value_text ?x, selectionStart = ?a,
      selectionEnd = min (?a + length i) (length (value_text ?x))\<rparr>"
    by (rule set_selection_range_inside [OF inside]) simp
  finally show ?thesis by (simp only: v)
qed


lemma perform_keeps_handle:
  "handle_ident (state_of (perform a s)) = handle_ident s \<and>
   engines_created (state_of (perform a s)) = engines_created s"
  by (auto simp: handle_ident_def controller_defs handleSpeechRecognitionResult_def
      updateInputValue_def Let_def
      split: action.splits engine_event.splits option.splits sum.splits if_splits
        log_callback.splits error_callback.splits result_callback.splits)

lemma run_keeps_handle:
  "handle_ident (run as s) = handle_ident s \<and> engines_created (run as s) = engines_created s"
  by (induction as arbitrary: s) (simp_all add: perform_keeps_handle)

lemma connect_creates:
  "engines_created (connect w s) =
     engines_created s +
     (if SpeechRecognition w = None \<and> webkitSpeechRecognition w = None then 0 else 1) \<and>
   handle_ident (connect w s) =
     (if SpeechRecognition w = None \<and> webkitSpeechRecognition w = None then None
      else Some (engines_created s))"
  by (auto simp: connect_def getSpeechRecognition_def pick_constructor_def handle_ident_def
      Let_def console_log_def console_error_def setupSpeechRecognitionProperties_def
      setupSpeechRecognitionCallbacks_def split: option.splits)

lemma idle_page_handle: "speechRecognition idle_page \<noteq> None"
  by (simp add: scenario_defs controller_defs Let_def)

lemma idle_page_flag: "\<not> speaking idle_page"
  by (simp add: scenario_defs controller_defs Let_def)

lemma idle_page_label: "textContent (startButtonTarget idle_page) = ''Start Voice Input''"
  by (simp add: scenario_defs controller_defs Let_def)

lemma idle_page_engine: "map_option started (speechRecognition idle_page) = Some False"
  by (simp add: scenario_defs controller_defs Let_def)

lemma recording_page_handle: "speechRecognition recording_page \<noteq> None"
  by (simp add: scenario_defs controller_defs Let_def)

lemma recording_page_flag: "speaking recording_page"
  by (simp add: scenario_defs controller_defs Let_def)

lemma recording_page_label:
  "textContent (startButtonTarget recording_page) = ''Stop Voice Input''"
  by (simp add: scenario_defs controller_defs Let_def)

lemma ended_recording_page_flag: "speaking ended_recording_page"
  by (simp add: scenario_defs controller_defs Let_def)

lemma ended_recording_page_label:
  "textContent (startButtonTarget ended_recording_page) = ''Stop Voice Input''"
  by (simp add: scenario_defs controller_defs Let_def)

lemma ended_recording_page_engine:
  "map_option started (speechRecognition ended_recording_page) = Some False"
  by (simp add: scenario_defs controller_defs Let_def)

subsection \<open>Without a recognition engine\<close>

text \<open>
  C1, as the code has it. With a \<^verbatim>\<open>null\<close> handle, \<^verbatim>\<open>record()\<close> changes nothing, writes
  one error line to the console and returns. \<^verbatim>\<open>startRecording()\<close> and \<^verbatim>\<open>stopRecording()\<close>
  have no check of their own (\<^verbatim>\<open>record()\<close> checks before it calls them): called with a
  \<^verbatim>\<open>null\<close> handle they throw a TypeError at the first statement and change nothing.
\<close>

theorem record_without_handle_reports:
  assumes "speechRecognition s = None"
  shows "noop_reporting_error s (record_click s) \<and>
         startRecording s = Inl (TypeError, s) \<and> stopRecording s = Inl (TypeError, s)"
  using assms
  by (simp add: noop_reporting_error_def record_click_def startRecording_def stopRecording_def
      console_error_def)

text \<open>In a browser without the engine, a click after \<^verbatim>\<open>connect()\<close> only adds the line
  ``Speech recognition is not available'' to the console.\<close>

theorem record_without_handle_reports_witness:
  "speechRecognition unsupported_page = None \<and>
   record_click unsupported_page =
     Inr (unsupported_page\<lparr>console := console unsupported_page @
            [ConsoleError [''Speech recognition is not available'']]\<rparr>) \<and>
   noop_reporting_error unsupported_page (record_click unsupported_page)"
proof -
  have h: "speechRecognition unsupported_page = None"
    by (simp add: scenario_defs controller_defs Let_def)
  from record_without_handle_reports [OF h]
  have "noop_reporting_error unsupported_page (record_click unsupported_page)"
    by blast
  moreover have "record_click unsupported_page =
     Inr (unsupported_page\<lparr>console := console unsupported_page @
            [ConsoleError [''Speech recognition is not available'']]\<rparr>)"
    using h by (simp add: record_click_def console_error_def)
  ultimately show ?thesis using h by blast
qed

text \<open>C1 as stated fails: in that same state \<^verbatim>\<open>startRecording()\<close> and
  \<^verbatim>\<open>stopRecording()\<close> throw instead of reporting and returning.\<close>

theorem start_stop_without_handle_throw:
  "speechRecognition unsupported_page = None \<and>
   startRecording unsupported_page = Inl (TypeError, unsupported_page) \<and>
   stopRecording unsupported_page = Inl (TypeError, unsupported_page) \<and>
   \<not> noop_reporting_error unsupported_page (startRecording unsupported_page) \<and>
   \<not> noop_reporting_error unsupported_page (stopRecording unsupported_page)"
  by (simp add: scenario_defs controller_defs Let_def noop_reporting_error_def)

subsection \<open>Splicing\<close>




text \<open>
  C10. A result event whose two transcripts come out empty still rewrites the input: with
  a selection \<open>start < end\<close> inside the text, the handler returns, the selected text is
  gone (the text is shorter), and the selection is collapsed at \<open>start\<close>.
\<close>

theorem empty_result_deletes_selection:
  assumes "extractTranscripts event = Inr t"
    and "finalTranscript t = []" and "interimTranscript t = []"
    and "selectionStart (inputTarget s) < selectionEnd (inputTarget s)"
    and "selectionEnd (inputTarget s) \<le> length (value_text (inputTarget s))"
  shows "\<exists>s'. handleSpeechRecognitionResult event s = Inr s' \<and>
           value_text (inputTarget s') =
             take (selectionStart (inputTarget s)) (value_text (inputTarget s)) @
             drop (selectionEnd (inputTarget s)) (value_text (inputTarget s)) \<and>
           selectionStart (inputTarget s') = selectionStart (inputTarget s) \<and>
           selectionEnd (inputTarget s') = selectionStart (inputTarget s) \<and>
           length (value_text (inputTarget s')) < length (value_text (inputTarget s))"
proof -
  from assms(4) have "selectionStart (inputTarget s) \<le> selectionEnd (inputTarget s)"
    by simp
  from inputTarget_updateInputValue [OF this assms(5), of "[]" "[]"] assms
  show ?thesis
    by (simp add: handleSpeechRecognitionResult_def)
qed

text \<open>With ``hello'' selected in ``hello world'', an event whose first changed index is
  past its last slot, and an event whose slots carry empty transcripts, each leave
  `` world'' with the caret at 0.\<close>

theorem empty_result_deletes_selection_witness:
  "extractTranscripts stale_event = Inr \<lparr>finalTranscript = [], interimTranscript = []\<rparr> \<and>
   extractTranscripts silent_event = Inr \<lparr>finalTranscript = [], interimTranscript = []\<rparr> \<and>
   selectionStart (inputTarget selected_page) < selectionEnd (inputTarget selected_page) \<and>
   selectionEnd (inputTarget selected_page) \<le> length (value_text (inputTarget selected_page)) \<and>
   inputTarget (state_of (handleSpeechRecognitionResult stale_event selected_page)) =
     \<lparr>value_text = '' world'', selectionStart = 0, selectionEnd = 0\<rparr> \<and>
   inputTarget (state_of (handleSpeechRecognitionResult silent_event selected_page)) =
     \<lparr>value_text = '' world'', selectionStart = 0, selectionEnd = 0\<rparr>"
proof -
  let ?t = "\<lparr>finalTranscript = [], interimTranscript = []\<rparr>"
  have stale: "extractTranscripts stale_event = Inr ?t"
    by (simp add: extractTranscripts_def stale_event_def)
  have silent: "extractTranscripts silent_event = Inr ?t"
    by (simp add: extractTranscripts_def silent_event_def slot_def)
  have sel: "selectionStart (inputTarget selected_page) < selectionEnd (inputTarget selected_page)"
    and inside: "selectionEnd (inputTarget selected_page) \<le> length (value_text (inputTarget selected_page))"
    and start: "selectionStart (inputTarget selected_page) = 0"
    and cut: "take (selectionStart (inputTarget selected_page)) (value_text (inputTarget selected_page)) @
       drop (selectionEnd (inputTarget selected_page)) (value_text (inputTarget selected_page)) = '' world''"
    by (simp_all add: selected_page_def)
  have shape: "inputTarget s' = \<lparr>value_text = '' world'', selectionStart = 0, selectionEnd = 0\<rparr>"
    if "value_text (inputTarget s') = '' world''" "selectionStart (inputTarget s') = 0"
      "selectionEnd (inputTarget s') = 0" for s'
    using that by (cases "inputTarget s'") simp
  from empty_result_deletes_selection [OF stale _ _ sel inside]
  obtain s1 where "handleSpeechRecognitionResult stale_event selected_page = Inr s1"
    "inputTarget s1 = \<lparr>value_text = '' world'', selectionStart = 0, selectionEnd = 0\<rparr>"
    using start cut shape by auto
  moreover from empty_result_deletes_selection [OF silent _ _ sel inside]
  obtain s2 where "handleSpeechRecognitionResult silent_event selected_page = Inr s2"
    "inputTarget s2 = \<lparr>value_text = '' world'', selectionStart = 0, selectionEnd = 0\<rparr>"
    using start cut shape by auto
  ultimately show ?thesis
    using stale silent sel inside by (simp add: state_of_def)
qed

subsection \<open>Engine errors\<close>

text \<open>
  C5. Whatever the \<^verbatim>\<open>speaking\<close> flag was, the error handler of a controller that has
  its engine returns and leaves the flag false.
\<close>

theorem error_handler_goes_idle:
  assumes "speechRecognition s \<noteq> None"
  shows "\<exists>s'. handleSpeechRecognitionError event s = Inr s' \<and> \<not> speaking s'"
  using assms
  by (auto simp: handleSpeechRecognitionError_def stopRecording_def console_error_def
      console_log_def)

text \<open>From the recording state and from the idle state.\<close>

theorem error_handler_goes_idle_witness:
  "speechRecognition recording_page \<noteq> None \<and> speaking recording_page \<and>
   \<not> isl (handleSpeechRecognitionError \<lparr>error = ''network''\<rparr> recording_page) \<and>
   \<not> speaking (state_of (handleSpeechRecognitionError \<lparr>error = ''network''\<rparr> recording_page)) \<and>
   speechRecognition idle_page \<noteq> None \<and> \<not> speaking idle_page \<and>
   \<not> isl (handleSpeechRecognitionError \<lparr>error = ''network''\<rparr> idle_page) \<and>
   \<not> speaking (state_of (handleSpeechRecognitionError \<lparr>error = ''network''\<rparr> idle_page))"
proof -
  from error_handler_goes_idle [OF recording_page_handle]
  obtain s1 where "handleSpeechRecognitionError \<lparr>error = ''network''\<rparr> recording_page = Inr s1"
    and "\<not> speaking s1" by blast
  moreover from error_handler_goes_idle [OF idle_page_handle]
  obtain s2 where "handleSpeechRecognitionError \<lparr>error = ''network''\<rparr> idle_page = Inr s2"
    and "\<not> speaking s2" by blast
  ultimately show ?thesis
    using recording_page_handle recording_page_flag idle_page_handle idle_page_flag
    by (simp add: state_of_def)
qed

text \<open>
  C3, where the code departs from it. After \<^verbatim>\<open>connect()\<close> and one click the controller
  is recording and the button reads ``Stop Voice Input''. The engine then reports the error
  ``no-speech'': the handler returns, the flag is false, and the button still reads
  ``Stop Voice Input''.
\<close>

theorem error_leaves_stop_label:
  "speaking recording_page \<and>
   textContent (startButtonTarget recording_page) = ''Stop Voice Input'' \<and>
   deliver (OnError \<lparr>error = ''no-speech''\<rparr>) recording_page = Inr page_after_error \<and>
   \<not> speaking page_after_error \<and>
   textContent (startButtonTarget page_after_error) = ''Stop Voice Input'' \<and>
   textContent (startButtonTarget page_after_error) \<noteq> ''Start Voice Input''"
  by (simp add: scenario_defs controller_defs Let_def)

subsection \<open>Two clicks\<close>

text \<open>
  C6, as the code has it. With an engine handle whose engine is not started (no
  \<^verbatim>\<open>start()\<close> since its last end or error event), two clicks in a row both return, the
  \<^verbatim>\<open>speaking\<close> flag is what it was, and the button carries the label that belongs to that
  flag: ``Stop Voice Input'' when recording, ``Start Voice Input'' when idle. So the button
  is as it was before whenever its label matched the flag at the first click.
\<close>

theorem toggle_twice_restores:
  assumes "speechRecognition s = Some e" and "\<not> started e"
  shows "\<exists>s'. toggle_twice s = Inr s' \<and> speaking s' = speaking s \<and>
           textContent (startButtonTarget s') = label_for (speaking s) \<and>
           (textContent (startButtonTarget s) = label_for (speaking s) \<longrightarrow>
              startButtonTarget s' = startButtonTarget s)"
  using assms
  by (cases "speaking s")
     (auto simp: toggle_twice_def record_click_def startRecording_def stopRecording_def
        engine_start_def engine_stop_def console_log_def set_textContent_def label_for_def)

text \<open>Both starting states, each with its matching label: the idle page after
  \<^verbatim>\<open>connect()\<close>, and the recording page whose engine has ended by itself.\<close>

theorem toggle_twice_restores_witness:
  "map_option started (speechRecognition idle_page) = Some False \<and>
   textContent (startButtonTarget idle_page) = label_for (speaking idle_page) \<and>
   \<not> isl (toggle_twice idle_page) \<and>
   speaking (state_of (toggle_twice idle_page)) = speaking idle_page \<and>
   startButtonTarget (state_of (toggle_twice idle_page)) = startButtonTarget idle_page \<and>
   map_option started (speechRecognition ended_recording_page) = Some False \<and>
   speaking ended_recording_page \<and>
   textContent (startButtonTarget ended_recording_page) =
     label_for (speaking ended_recording_page) \<and>
   \<not> isl (toggle_twice ended_recording_page) \<and>
   speaking (state_of (toggle_twice ended_recording_page)) = speaking ended_recording_page \<and>
   startButtonTarget (state_of (toggle_twice ended_recording_page)) =
     startButtonTarget ended_recording_page"
proof -
  have l1: "textContent (startButtonTarget idle_page) = label_for (speaking idle_page)"
    by (simp add: idle_page_flag idle_page_label label_for_def)
  have l2: "textContent (startButtonTarget ended_recording_page) =
      label_for (speaking ended_recording_page)"
    by (simp add: ended_recording_page_flag ended_recording_page_label label_for_def)
  from idle_page_engine obtain e1 where e1: "speechRecognition idle_page = Some e1"
    and n1: "\<not> started e1" by auto
  from ended_recording_page_engine
  obtain e2 where e2: "speechRecognition ended_recording_page = Some e2"
    and n2: "\<not> started e2" by auto
  from toggle_twice_restores [OF e1 n1] l1
  obtain s1 where "toggle_twice idle_page = Inr s1" "speaking s1 = speaking idle_page"
    "startButtonTarget s1 = startButtonTarget idle_page" by blast
  moreover from toggle_twice_restores [OF e2 n2] l2
  obtain s2 where "toggle_twice ended_recording_page = Inr s2"
    "speaking s2 = speaking ended_recording_page"
    "startButtonTarget s2 = startButtonTarget ended_recording_page" by blast
  ultimately show ?thesis
    using l1 l2 idle_page_engine ended_recording_page_engine ended_recording_page_flag
    by (simp add: state_of_def)
qed

text \<open>
  C6 as stated fails twice. In the state an engine error leaves behind (idle, the button
  reading ``Stop Voice Input'') two clicks return to idle and the button reads
  ``Start Voice Input'', which is not what it read before. And on the recording page,
  whose engine is started, the first click stops and the second calls \<^verbatim>\<open>start()\<close> before
  any end event: the engine throws an InvalidStateError, and the controller is left idle
  where it was recording.
\<close>

theorem toggle_twice_changes_label:
  "speechRecognition page_after_engine_error \<noteq> None \<and>
   \<not> speaking page_after_engine_error \<and>
   \<not> isl (toggle_twice page_after_engine_error) \<and>
   \<not> speaking (state_of (toggle_twice page_after_engine_error)) \<and>
   textContent (startButtonTarget page_after_engine_error) = ''Stop Voice Input'' \<and>
   textContent (startButtonTarget (state_of (toggle_twice page_after_engine_error))) =
     ''Start Voice Input'' \<and>
   textContent (startButtonTarget (state_of (toggle_twice page_after_engine_error))) \<noteq>
     textContent (startButtonTarget page_after_engine_error) \<and>
   speechRecognition recording_page \<noteq> None \<and>
   speaking recording_page \<and>
   map_option fst (case toggle_twice recording_page of Inl x \<Rightarrow> Some x | Inr _ \<Rightarrow> None) =
     Some InvalidStateError \<and>
   \<not> speaking (state_of (toggle_twice recording_page)) \<and>
   textContent (startButtonTarget (state_of (toggle_twice recording_page))) =
     ''Start Voice Input''"
  by (simp add: scenario_defs controller_defs Let_def toggle_twice_def)

subsection \<open>The engine handle\<close>

text \<open>
  C7, as the code has it. Each run of \<^verbatim>\<open>connect()\<close> constructs one engine when the
  browser has either constructor and none otherwise, and the handle is that engine. After
  it, no sequence of clicks, direct calls of \<^verbatim>\<open>startRecording\<close> and \<^verbatim>\<open>stopRecording\<close>,
  and engine events constructs another engine or puts another object in the handle.
\<close>

theorem handle_created_once:
  "engines_created (connect w s) =
     engines_created s +
     (if SpeechRecognition w = None \<and> webkitSpeechRecognition w = None then 0 else 1) \<and>
   handle_ident (connect w s) =
     (if SpeechRecognition w = None \<and> webkitSpeechRecognition w = None then None
      else Some (engines_created s)) \<and>
   handle_ident (run as (connect w s)) = handle_ident (connect w s) \<and>
   engines_created (run as (connect w s)) = engines_created (connect w s)"
  using connect_creates [of w s] run_keeps_handle [of as "connect w s"] by blast

text \<open>In a browser with the prefixed constructor the first engine of the page becomes the
  handle, and it still is after a click, a result, a click, an end event, direct calls of
  both methods and an error.\<close>

theorem handle_created_once_witness:
  "webkitSpeechRecognition browser_with_engine \<noteq> None \<and>
   engines_created page = 0 \<and>
   handle_ident (connect browser_with_engine page) = Some 0 \<and>
   engines_created (connect browser_with_engine page) = 1 \<and>
   handle_ident
     (run [Click, Engine (OnResult example_event), Click, Engine OnEnd, CallStart, CallStop,
           Engine (OnError \<lparr>error = ''network''\<rparr>)]
        (connect browser_with_engine page)) = Some 0 \<and>
   engines_created
     (run [Click, Engine (OnResult example_event), Click, Engine OnEnd, CallStart, CallStop,
           Engine (OnError \<lparr>error = ''network''\<rparr>)]
        (connect browser_with_engine page)) = 1"
proof -
  have w: "webkitSpeechRecognition browser_with_engine \<noteq> None"
    by (simp add: browser_with_engine_def)
  have p: "engines_created page = 0"
    by (simp add: page_def)
  from handle_created_once [of browser_with_engine page
      "[Click, Engine (OnResult example_event), Click, Engine OnEnd, CallStart, CallStop,
        Engine (OnError \<lparr>error = ''network''\<rparr>)]"] w p
  show ?thesis by simp
qed

text \<open>C7 as stated fails when \<^verbatim>\<open>connect()\<close> runs again on the same controller, as it does
  when its element is attached to the page again: a second engine is constructed and
  replaces the first in the handle.\<close>

theorem reconnect_replaces_handle:
  "handle_ident (connect browser_with_engine page) = Some 0 \<and>
   handle_ident (connect browser_with_engine (connect browser_with_engine page)) = Some 1 \<and>
   engines_created (connect browser_with_engine (connect browser_with_engine page)) = 2"
  by (simp add: scenario_defs controller_defs handle_ident_def Let_def)

text \<open>
  C8. The engine's end event is reported only: its handler returns, and the \<^verbatim>\<open>speaking\<close>
  flag, the handle, the input with its text and selection, and the button are what they
  were. On the recording page the event writes ``Recording stopped...'' to the console
  and nothing else.
\<close>

theorem onend_reported_only:
  "(\<exists>s'. deliver OnEnd s = Inr s' \<and> speaking s' = speaking s \<and>
      speechRecognition s' = speechRecognition s \<and> inputTarget s' = inputTarget s \<and>
      startButtonTarget s' = startButtonTarget s) \<and>
   deliver OnEnd recording_page = Inr (console_log [''Recording stopped...''] recording_page)"
proof
  show "\<exists>s'. deliver OnEnd s = Inr s' \<and> speaking s' = speaking s \<and>
      speechRecognition s' = speechRecognition s \<and> inputTarget s' = inputTarget s \<and>
      startButtonTarget s' = startButtonTarget s"
    by (auto simp: deliver_def run_log_callback_def console_log_def
        split: option.splits log_callback.splits)
  show "deliver OnEnd recording_page =
      Inr (console_log [''Recording stopped...''] recording_page)"
    by (simp add: scenario_defs controller_defs Let_def)
qed

text \<open>
  C9. After \<^verbatim>\<open>connect()\<close> the \<^verbatim>\<open>speaking\<close> flag is false; a handle is obtained when
  the browser has a constructor, and every handle obtained has \<^verbatim>\<open>continuous\<close> and
  \<^verbatim>\<open>interimResults\<close> true and the language ``en-US''.
\<close>

theorem connect_configures_engine:
  "\<not> speaking (connect w s) \<and>
   (pick_constructor w \<noteq> None \<longrightarrow> speechRecognition (connect w s) \<noteq> None) \<and>
   (\<forall>e. speechRecognition (connect w s) = Some e \<longrightarrow>
      continuous e \<and> interimResults e \<and> lang e = ''en-US'')"
  by (auto simp: connect_def getSpeechRecognition_def Let_def
      console_log_def console_error_def setupSpeechRecognitionProperties_def
      setupSpeechRecognitionCallbacks_def split: option.splits)

text \<open>An engine that starts with both switches off and no language.\<close>

theorem connect_configures_engine_witness:
  "pick_constructor browser_with_engine \<noteq> None \<and>
   \<not> continuous fresh_engine \<and> \<not> interimResults fresh_engine \<and> lang fresh_engine = [] \<and>
   \<not> speaking (connect browser_with_engine page) \<and>
   (\<exists>e. speechRecognition (connect browser_with_engine page) = Some e \<and>
      continuous e \<and> interimResults e \<and> lang e = ''en-US'')"
proof -
  have avail: "pick_constructor browser_with_engine \<noteq> None"
    by (simp add: pick_constructor_def browser_with_engine_def)
  note c = connect_configures_engine [of browser_with_engine page]
  from c avail obtain e where e: "speechRecognition (connect browser_with_engine page) = Some e"
    by blast
  with c have "continuous e \<and> interimResults e \<and> lang e = ''en-US''" by blast
  with c e avail show ?thesis by (auto simp: fresh_engine_def)
qed

end
